theory Spec2Isabelle
  imports Main "HOL-Library.Multiset"
begin

section \<open>Data model\<close>

text \<open>
  The documents the handlers of \<^verbatim>\<open>src/api/questions/routes.py\<close> build and read.
  A document has no identity until the store inserts it, so the identity is optional.
  Python's unbounded integers are \<open>int\<close>; identities are the store's counter values.
\<close>

record question =
  q_id :: "nat option"
  q_title :: string
  q_description :: string
  q_tags :: "string list"
  q_company_id :: nat
  q_user_id :: string
  q_upvotes :: int

record answer =
  a_id :: "nat option"
  a_question_id :: nat
  a_answer :: string
  a_user_id :: "string option"
  a_upvotes :: int
  a_is_ai :: bool

record comment =
  c_id :: "nat option"
  c_answer_id :: nat
  c_comment :: string
  c_user_id :: string

text \<open>The tenant configuration a user document points to, read by the AI route only.\<close>

record company =
  co_id :: nat
  ai_answer_enabled :: bool

record user_doc =
  ud_id :: string
  ud_company :: company

text \<open>
  The verified caller that \<^verbatim>\<open>Depends(verify_in_company)\<close> hands to every handler:
  the handlers read \<^verbatim>\<open>current_user.company_id\<close> and \<^verbatim>\<open>current_user["sub"]\<close>.
\<close>

record user =
  u_company_id :: nat
  u_sub :: string

text \<open>
  The request bodies (\<^verbatim>\<open>question_data\<close>, \<^verbatim>\<open>answer_data\<close>, \<^verbatim>\<open>comment_data\<close>
  are Python dicts), restricted to the keys the handlers read; a key that is absent is
  \<open>None\<close>.
\<close>

record question_data =
  qd_title :: "string option"
  qd_description :: "string option"
  qd_tags :: "string list option"

record answer_data =
  ad_answer :: "string option"

record comment_data =
  cd_comment :: "string option"

section \<open>Failures\<close>

text \<open>
  Every \<^verbatim>\<open>raise\<close> of the handlers, and every exception a handler lets through:
  \<^item> \<open>HTTPException code detail\<close> is raised by the handlers themselves;
  \<^item> \<open>KeyError k\<close> is Python's failure of \<^verbatim>\<open>d[k]\<close> on a dict without the key \<open>k\<close>;
  \<^item> \<open>AttributeError\<close> is reading \<^verbatim>\<open>.company\<close> off the query that
    \<^verbatim>\<open>User.find_one\<close> returns, which is not a user document;
  \<^item> \<open>GenerationFailure\<close> is an exception of the external \<^verbatim>\<open>generate_ai_answer\<close>;
  \<^item> \<open>StoreError\<close> is the store refusing a query.
\<close>

datatype error =
    HTTPException nat string
  | KeyError string
  | AttributeError
  | GenerationFailure
  | StoreError

abbreviation NotFound :: error where
  "NotFound \<equiv> HTTPException 404 ''Question not found''"

abbreviation AnswerNotFound :: error where
  "AnswerNotFound \<equiv> HTTPException 404 ''Answer not found''"

abbreviation AccessDenied :: error where
  "AccessDenied \<equiv> HTTPException 403 ''Access denied''"

abbreviation Forbidden :: error where
  "Forbidden \<equiv> HTTPException 403 ''AI-generated answers are disabled''"

text \<open>
  The specification's ValidationError is a failure reported to the caller as malformed
  input (a 4xx answer: 400, or 422 as the framework reports request validation). No
  handler raises one; an exception that is not an \<open>HTTPException\<close> is not one either.
\<close>

fun is_validation_error :: "error \<Rightarrow> bool" where
  "is_validation_error (HTTPException code detail) = (code = 400 \<or> code = 422)"
| "is_validation_error (KeyError k) = False"
| "is_validation_error AttributeError = False"
| "is_validation_error GenerationFailure = False"
| "is_validation_error StoreError = False"

fun fails_with_validation_error :: "error + 'a \<Rightarrow> bool" where
  "fails_with_validation_error (Inl e) = is_validation_error e"
| "fails_with_validation_error (Inr v) = False"

section \<open>The content store\<close>

text \<open>
  The collections the handlers share, in insertion order, and the counter that gives each
  inserted document its identity.
\<close>

record store =
  questions :: "question list"
  answers :: "answer list"
  comments :: "comment list"
  users :: "user_doc list"
  next_id :: nat

definition empty_store :: store where
  "empty_store = \<lparr>questions = [], answers = [], comments = [], users = [], next_id = 0\<rparr>"

text \<open>
  Modelled from the spec: the store's \<^verbatim>\<open>insert\<close> (\<^verbatim>\<open>Document.insert\<close> of the
  \<^verbatim>\<open>db.models\<close> classes, which are not under \<^verbatim>\<open>src/\<close>): it assigns a globally
  unique identity and appends the document. The identity is returned with the new store.
\<close>

definition Question_insert :: "store \<Rightarrow> question \<Rightarrow> nat \<times> store" where
  "Question_insert s q =
     (next_id s,
      s\<lparr>questions := questions s @ [q\<lparr>q_id := Some (next_id s)\<rparr>],
        next_id := Suc (next_id s)\<rparr>)"

definition Answer_insert :: "store \<Rightarrow> answer \<Rightarrow> nat \<times> store" where
  "Answer_insert s a =
     (next_id s,
      s\<lparr>answers := answers s @ [a\<lparr>a_id := Some (next_id s)\<rparr>],
        next_id := Suc (next_id s)\<rparr>)"

definition Comment_insert :: "store \<Rightarrow> comment \<Rightarrow> nat \<times> store" where
  "Comment_insert s c =
     (next_id s,
      s\<lparr>comments := comments s @ [c\<lparr>c_id := Some (next_id s)\<rparr>],
        next_id := Suc (next_id s)\<rparr>)"

text \<open>
  Modelled from the spec: the store's get-by-id (\<^verbatim>\<open>Question.get\<close>, \<^verbatim>\<open>Answer.get\<close>),
  returning the document or nothing.
\<close>

definition Question_get :: "store \<Rightarrow> nat \<Rightarrow> question option" where
  "Question_get s qid = find (\<lambda>q. q_id q = Some qid) (questions s)"

definition Answer_get :: "store \<Rightarrow> nat \<Rightarrow> answer option" where
  "Answer_get s aid = find (\<lambda>a. a_id a = Some aid) (answers s)"

text \<open>
  Modelled from the spec: the tenant configuration lookup, the company of the user document
  with that identity, if any. It says which caller's tenant has AI answering off; the AI
  route itself does not get as far as a user document (see \<open>company_attr\<close>).
\<close>

definition User_company :: "store \<Rightarrow> string \<Rightarrow> company option" where
  "User_company s sub = map_option ud_company (find (\<lambda>d. ud_id d = sub) (users s))"

text \<open>
  Line 106 of the source is
  \<^verbatim>\<open>company = await User.find_one(User.id == current_user["sub"]).company\<close>.
  Attribute access binds tighter than \<^verbatim>\<open>await\<close>: \<^verbatim>\<open>.company\<close> is read off what
  \<^verbatim>\<open>User.find_one\<close> returns, a query that has not been awaited, and only the result of
  that read would be awaited. \<open>User_find_one sub\<close> is that query for the user identity
  \<open>sub\<close>; it is not a user document and has no company, so the read raises.
\<close>

datatype find_one_query = User_find_one string

fun company_attr :: "find_one_query \<Rightarrow> error + company" where
  "company_attr (User_find_one sub) = Inl AttributeError"

text \<open>
  The filter document \<^verbatim>\<open>query\<close> of \<^verbatim>\<open>get_questions\<close>: the optional
  \<^verbatim>\<open>{"tags": {"$in": tags}}\<close> and the mandatory \<^verbatim>\<open>company_id\<close>.
\<close>

record query =
  qr_tags_in :: "string list option"
  qr_company_id :: nat

text \<open>
  Modelled from the spec: which documents a filter selects (a conjunction of an exact
  match on the tenant and, when present, "tags intersects the given list").
\<close>

definition matches :: "query \<Rightarrow> question \<Rightarrow> bool" where
  "matches qr q =
     ((case qr_tags_in qr of
         None \<Rightarrow> True
       | Some ts \<Rightarrow> list_ex (\<lambda>t. t \<in> set ts) (q_tags q))
      \<and> q_company_id q = qr_company_id qr)"

text \<open>
  Modelled from the spec: the store's filtered, sorted, paginated query, the chain
  \<^verbatim>\<open>Question.find(query).sort(d).skip(n).limit(m).to_list()\<close>. The handler gives the
  sort a direction and no key, so the ordering the store applies for a direction is the
  parameter \<open>srt\<close>. The spec's contract covers an offset \<open>n \<ge> 0\<close> and a limit
  \<open>m > 0\<close>: skip \<open>n\<close> documents, return at most \<open>m\<close>. Outside it the model follows
  the document database the source's \<^verbatim>\<open>$in\<close> filter is written for: a negative
  skip is refused, a limit of 0 is no limit, a negative limit is its absolute value.
\<close>

definition limit_docs :: "int \<Rightarrow> 'a list \<Rightarrow> 'a list" where
  "limit_docs m xs = (if m = 0 then xs else take (nat \<bar>m\<bar>) xs)"

text \<open>The filter document \<^verbatim>\<open>get_questions\<close> builds (lines 37 to 41 of the source).\<close>

definition build_query :: "string list option \<Rightarrow> user \<Rightarrow> query" where
  "build_query tags current_user =
     \<lparr>qr_tags_in = (case tags of
                       None \<Rightarrow> None
                     | Some ts \<Rightarrow> if ts = [] then None else Some ts),
      qr_company_id = u_company_id current_user\<rparr>"

definition find_to_list ::
  "(int \<Rightarrow> question list \<Rightarrow> question list) \<Rightarrow> store \<Rightarrow> query \<Rightarrow> int \<Rightarrow> int \<Rightarrow> int
     \<Rightarrow> error + question list" where
  "find_to_list srt s qr d n m =
     (if n < 0 then Inl StoreError
      else Inr (limit_docs m (drop (nat n) (srt d (filter (matches qr) (questions s))))))"

text \<open>
  One ordering a store can apply, used where a concrete store is needed: for a negative
  direction, descending by upvotes, ties in insertion order.
\<close>

definition sort_by_upvotes :: "int \<Rightarrow> question list \<Rightarrow> question list" where
  "sort_by_upvotes d xs =
     (if d < 0 then sort_key (\<lambda>q. - q_upvotes q) xs else sort_key q_upvotes xs)"

section \<open>The handlers\<close>

text \<open>
  A handler that writes returns its outcome together with the store it leaves behind, so
  that a failure after an insert would show. A handler that only reads returns its outcome.
\<close>

text \<open>\<^verbatim>\<open>create_question\<close> (POST /questions).\<close>

definition create_question ::
  "store \<Rightarrow> question_data \<Rightarrow> user \<Rightarrow> (error + string \<times> nat) \<times> store" where
  "create_question s question_data current_user =
     (case qd_title question_data of
        None \<Rightarrow> (Inl (KeyError ''title''), s)
      | Some t \<Rightarrow>
          (case qd_description question_data of
             None \<Rightarrow> (Inl (KeyError ''description''), s)
           | Some d \<Rightarrow>
               let question = \<lparr>q_id = None, q_title = t, q_description = d,
                                 q_tags = (case qd_tags question_data of
                                             None \<Rightarrow> [] | Some ts \<Rightarrow> ts),
                                 q_company_id = u_company_id current_user,
                                 q_user_id = u_sub current_user,
                                 q_upvotes = 0\<rparr>;
                   (qid, s') = Question_insert s question
               in (Inr (''Question created successfully'', qid), s')))"

text \<open>\<^verbatim>\<open>get_questions\<close> (GET /questions).\<close>

definition get_questions ::
  "(int \<Rightarrow> question list \<Rightarrow> question list) \<Rightarrow> store \<Rightarrow> int \<Rightarrow> int \<Rightarrow> string list option
     \<Rightarrow> string \<Rightarrow> user \<Rightarrow> error + question list" where
  "get_questions srt s page page_size tags sort_by current_user =
     (let query = build_query tags current_user
      in find_to_list srt s query
           (if sort_by = ''upvotes'' then - 1 else - 1)
           ((page - 1) * page_size)
           page_size)"

text \<open>\<^verbatim>\<open>get_question_by_id\<close> (GET /questions/{question_id}).\<close>

definition get_question_by_id ::
  "store \<Rightarrow> nat \<Rightarrow> user \<Rightarrow> error + question \<times> (answer \<times> comment list) list" where
  "get_question_by_id s question_id current_user =
     (case Question_get s question_id of
        None \<Rightarrow> Inl NotFound
      | Some question \<Rightarrow>
          if q_company_id question \<noteq> u_company_id current_user then Inl AccessDenied
          else
            let answers = filter (\<lambda>a. a_question_id a = question_id) (answers s)
            in Inr (question,
                    map (\<lambda>a. (a, filter (\<lambda>c. Some (c_answer_id c) = a_id a) (comments s)))
                      answers))"

text \<open>\<^verbatim>\<open>answer_question\<close> (POST /questions/{question_id}/answers).\<close>

definition answer_question ::
  "store \<Rightarrow> nat \<Rightarrow> answer_data \<Rightarrow> user \<Rightarrow> (error + string) \<times> store" where
  "answer_question s question_id answer_data current_user =
     (case Question_get s question_id of
        None \<Rightarrow> (Inl NotFound, s)
      | Some question \<Rightarrow>
          (case ad_answer answer_data of
             None \<Rightarrow> (Inl (KeyError ''answer''), s)
           | Some body \<Rightarrow>
               let answer = \<lparr>a_id = None, a_question_id = question_id, a_answer = body,
                               a_user_id = Some (u_sub current_user), a_upvotes = 0,
                               a_is_ai = False\<rparr>;
                   (aid, s') = Answer_insert s answer
               in (Inr ''Answer added successfully'', s')))"

text \<open>\<^verbatim>\<open>comment_on_answer\<close> (POST /answers/{answer_id}/comments).\<close>

definition comment_on_answer ::
  "store \<Rightarrow> nat \<Rightarrow> comment_data \<Rightarrow> user \<Rightarrow> (error + string) \<times> store" where
  "comment_on_answer s answer_id comment_data current_user =
     (case Answer_get s answer_id of
        None \<Rightarrow> (Inl AnswerNotFound, s)
      | Some answer \<Rightarrow>
          (case cd_comment comment_data of
             None \<Rightarrow> (Inl (KeyError ''comment''), s)
           | Some body \<Rightarrow>
               let comment = \<lparr>c_id = None, c_answer_id = answer_id, c_comment = body,
                                c_user_id = u_sub current_user\<rparr>;
                   (cid, s') = Comment_insert s comment
               in (Inr ''Comment added successfully'', s')))"

text \<open>
  \<^verbatim>\<open>generate_ai_answer_route\<close> (POST /questions/{question_id}/generate-answer). The
  external generator is the parameter \<open>generate_ai_answer\<close>, from title and description
  to the answer text; \<open>None\<close> is the call raising. The branches follow the source line
  by line; those after the read of \<^verbatim>\<open>.company\<close> (line 106) are written as the source
  has them, and that read decides whether they are reached.
\<close>

definition generate_ai_answer_route ::
  "(string \<Rightarrow> string \<Rightarrow> string option) \<Rightarrow> store \<Rightarrow> nat \<Rightarrow> user
     \<Rightarrow> (error + string \<times> string) \<times> store" where
  "generate_ai_answer_route generate_ai_answer s question_id current_user =
     (case Question_get s question_id of
        None \<Rightarrow> (Inl NotFound, s)
      | Some question \<Rightarrow>
          (case company_attr (User_find_one (u_sub current_user)) of
             Inl e \<Rightarrow> (Inl e, s)
           | Inr company \<Rightarrow>
               if \<not> ai_answer_enabled company then (Inl Forbidden, s)
               else
                 (case generate_ai_answer (q_title question) (q_description question) of
                    None \<Rightarrow> (Inl GenerationFailure, s)
                  | Some ai_answer \<Rightarrow>
                      let answer = \<lparr>a_id = None, a_question_id = question_id,
                                      a_answer = ai_answer, a_user_id = None,
                                      a_upvotes = 0, a_is_ai = True\<rparr>;
                          (aid, s') = Answer_insert s answer
                      in (Inr (''AI-generated answer added successfully'', ai_answer), s'))))"

section \<open>Sequences of requests\<close>

text \<open>
  The write requests a caller can send. A failed request leaves the store as the handler
  left it and the next request runs on that store.
\<close>

datatype request =
    CreateQuestion question_data user
  | AnswerQuestion nat answer_data user
  | CommentOnAnswer nat comment_data user
  | GenerateAiAnswer "string \<Rightarrow> string \<Rightarrow> string option" nat user

fun handle :: "store \<Rightarrow> request \<Rightarrow> store" where
  "handle s (CreateQuestion d u) = snd (create_question s d u)"
| "handle s (AnswerQuestion qid d u) = snd (answer_question s qid d u)"
| "handle s (CommentOnAnswer aid d u) = snd (comment_on_answer s aid d u)"
| "handle s (GenerateAiAnswer g qid u) = snd (generate_ai_answer_route g s qid u)"

definition run :: "store \<Rightarrow> request list \<Rightarrow> store" where
  "run s rs = foldl handle s rs"

section \<open>Store invariants\<close>

text \<open>Identities are unique and below the counter: what the store's insert maintains.\<close>

definition wf_store :: "store \<Rightarrow> bool" where
  "wf_store s =
     (distinct (map q_id (questions s))
      \<and> list_all (\<lambda>q. case q_id q of None \<Rightarrow> False | Some i \<Rightarrow> i < next_id s) (questions s))"

text \<open>The author of an answer is present exactly when the answer is not AI-generated.\<close>

definition author_matches_origin :: "answer \<Rightarrow> bool" where
  "author_matches_origin a = ((a_user_id a \<noteq> None) = (\<not> a_is_ai a))"

definition answers_ok :: "store \<Rightarrow> bool" where
  "answers_ok s = list_all author_matches_origin (answers s)"

text \<open>The items of a page, empty for a failed request.\<close>

fun items :: "error + 'a list \<Rightarrow> 'a list" where
  "items (Inl e) = []"
| "items (Inr xs) = xs"

section \<open>Example stores\<close>

definition alice :: user where
  "alice = \<lparr>u_company_id = 1, u_sub = ''alice''\<rparr>"

definition bob :: user where
  "bob = \<lparr>u_company_id = 2, u_sub = ''bob''\<rparr>"

definition q0 :: question where
  "q0 = \<lparr>q_id = Some 0, q_title = ''t'', q_description = ''d'', q_tags = [''x''],
         q_company_id = 1, q_user_id = ''alice'', q_upvotes = 0\<rparr>"

text \<open>
  A store with one question of company 1, and the user documents of two callers: company 1
  has AI answering off, company 2 has it on.
\<close>

definition store1 :: store where
  "store1 = \<lparr>questions = [q0], answers = [], comments = [],
             users = [\<lparr>ud_id = ''alice'', ud_company = \<lparr>co_id = 1, ai_answer_enabled = False\<rparr>\<rparr>,
                      \<lparr>ud_id = ''bob'', ud_company = \<lparr>co_id = 2, ai_answer_enabled = True\<rparr>\<rparr>],
             next_id = 1\<rparr>"

definition q1 :: question where
  "q1 = \<lparr>q_id = Some 1, q_title = ''t1'', q_description = ''d1'', q_tags = [],
         q_company_id = 1, q_user_id = ''alice'', q_upvotes = 5\<rparr>"

definition q2 :: question where
  "q2 = \<lparr>q_id = Some 2, q_title = ''t2'', q_description = ''d2'', q_tags = [''x''],
         q_company_id = 2, q_user_id = ''bob'', q_upvotes = 9\<rparr>"

definition q3 :: question where
  "q3 = \<lparr>q_id = Some 3, q_title = ''t3'', q_description = ''d3'', q_tags = [''y''],
         q_company_id = 1, q_user_id = ''alice'', q_upvotes = 2\<rparr>"

text \<open>A store with three questions of company 1 and one of company 2.\<close>

definition store2 :: store where
  "store2 = \<lparr>questions = [q0, q1, q2, q3], answers = [], comments = [], users = [],
             next_id = 4\<rparr>"

text \<open>
  A store that already holds an answer by a caller and an AI-generated answer to the
  question of company 1.
\<close>

definition store3 :: store where
  "store3 = \<lparr>questions = [q0],
             answers = [\<lparr>a_id = Some 1, a_question_id = 0, a_answer = ''h'',
                          a_user_id = Some ''alice'', a_upvotes = 0, a_is_ai = False\<rparr>,
                        \<lparr>a_id = Some 2, a_question_id = 0, a_answer = ''g'',
                          a_user_id = None, a_upvotes = 0, a_is_ai = True\<rparr>],
             comments = [], users = [], next_id = 3\<rparr>"

section \<open>Facts about the store\<close>

lemma find_distinct:
  "distinct (map f xs) \<Longrightarrow> x \<in> set xs \<Longrightarrow> find (\<lambda>y. f y = f x) xs = Some x"
  by (induction xs) (auto simp: image_iff)

lemma find_Some_mem: "find P xs = Some x \<Longrightarrow> x \<in> set xs \<and> P x"
  by (induction xs) (auto split: if_splits)

lemma find_append_fresh:
  "\<forall>x \<in> set xs. \<not> P x \<Longrightarrow> P y \<Longrightarrow> find P (xs @ [y]) = Some y"
  by (induction xs) auto

lemma find_append_left:
  "find P xs = Some x \<Longrightarrow> find P (xs @ ys) = Some x"
  by (induction xs) (auto split: if_splits)

text \<open>In a well-formed store a stored question is the one its identity resolves to.\<close>

lemma Question_get_wf:
  assumes "wf_store s" and "q \<in> set (questions s)"
  shows "\<exists>i. q_id q = Some i \<and> Question_get s i = Some q"
proof -
  from assms obtain i where i: "q_id q = Some i"
    by (auto simp: wf_store_def list_all_iff split: option.splits)
  from assms have "find (\<lambda>y. q_id y = q_id q) (questions s) = Some q"
    by (intro find_distinct) (simp_all add: wf_store_def)
  with i show ?thesis by (simp add: Question_get_def)
qed

lemma Question_get_mem:
  "Question_get s i = Some q \<Longrightarrow> q \<in> set (questions s) \<and> q_id q = Some i"
  by (auto simp: Question_get_def dest: find_Some_mem)

lemma set_limit_docs: "set (limit_docs m xs) \<subseteq> set xs"
  by (auto simp: limit_docs_def dest: in_set_takeD)

lemma find_to_list_subset:
  assumes "\<forall>d xs. set (srt d xs) \<subseteq> set xs"
    and "find_to_list srt s qr d n m = Inr rs"
  shows "set rs \<subseteq> {q \<in> set (questions s). matches qr q}"
proof -
  from assms(2)
  have "rs = limit_docs m (drop (nat n) (srt d (filter (matches qr) (questions s))))"
    by (simp add: find_to_list_def split: if_splits)
  then have "set rs \<subseteq> set (srt d (filter (matches qr) (questions s)))"
    using set_limit_docs set_drop_subset by fastforce
  also have "\<dots> \<subseteq> set (filter (matches qr) (questions s))"
    using assms(1) by blast
  finally show ?thesis by simp
qed

lemma sort_by_upvotes_set: "set (sort_by_upvotes d xs) = set xs"
  by (simp add: sort_by_upvotes_def)

lemma sort_by_upvotes_mset: "mset (sort_by_upvotes d xs) = mset xs"
  by (simp add: sort_by_upvotes_def)

subsection \<open>A stored question of another tenant is never read\<close>

lemma stored_question_isolated:
  assumes "\<forall>d xs. set (srt d xs) \<subseteq> set xs"
    and "wf_store s"
    and "q \<in> set (questions s)"
    and "q_company_id q \<noteq> u_company_id current_user"
  shows "(\<forall>rs. get_questions srt s page page_size tags sort_by current_user = Inr rs
            \<longrightarrow> q \<notin> set rs)
       \<and> (\<forall>question_id r. get_question_by_id s question_id current_user = Inr r
            \<longrightarrow> fst r \<noteq> q)
       \<and> (\<exists>i. q_id q = Some i \<and> get_question_by_id s i current_user = Inl AccessDenied)"
proof (intro conjI allI impI)
  fix rs
  assume "get_questions srt s page page_size tags sort_by current_user = Inr rs"
  then obtain qr
    where "find_to_list srt s qr (- 1) ((page - 1) * page_size) page_size = Inr rs"
      and "qr_company_id qr = u_company_id current_user"
    by (simp add: get_questions_def build_query_def)
  with assms(1) have "\<forall>x \<in> set rs. q_company_id x = u_company_id current_user"
    by (auto dest!: find_to_list_subset simp: matches_def)
  with assms(4) show "q \<notin> set rs" by blast
next
  fix question_id r
  assume "get_question_by_id s question_id current_user = Inr r"
  then have "q_company_id (fst r) = u_company_id current_user"
    by (auto simp: get_question_by_id_def split: option.splits if_splits)
  with assms(4) show "fst r \<noteq> q" by blast
next
  from Question_get_wf [OF assms(2,3)] obtain i
    where "q_id q = Some i" and "Question_get s i = Some q" by blast
  with assms(4)
  show "\<exists>i. q_id q = Some i \<and> get_question_by_id s i current_user = Inl AccessDenied"
    by (simp add: get_question_by_id_def)
qed

subsection \<open>What the write handlers keep\<close>

lemma create_question_wf:
  "wf_store s \<Longrightarrow> wf_store (snd (create_question s d u))"
  by (auto simp: create_question_def Question_insert_def wf_store_def list_all_iff image_iff
      split: option.splits)

text \<open>A created question is stored under the creator's tenant and under the returned identity.\<close>

lemma create_question_tenant:
  assumes "wf_store s" and "create_question s d u = (Inr (m, i), s')"
  shows "\<exists>q. Question_get s' i = Some q \<and> q \<in> set (questions s')
           \<and> q_company_id q = u_company_id u"
proof -
  from assms(2) obtain t ds where td: "qd_title d = Some t" "qd_description d = Some ds"
    by (auto simp: create_question_def split: option.splits)
  define q where "q = \<lparr>q_id = Some (next_id s), q_title = t, q_description = ds,
      q_tags = (case qd_tags d of None \<Rightarrow> [] | Some ts \<Rightarrow> ts),
      q_company_id = u_company_id u, q_user_id = u_sub u, q_upvotes = 0\<rparr>"
  from assms(2) td have i: "i = next_id s" and s': "questions s' = questions s @ [q]"
    by (auto simp: create_question_def Question_insert_def q_def)
  from assms(1) have "\<forall>x \<in> set (questions s). \<not> q_id x = Some (next_id s)"
    by (auto simp: wf_store_def list_all_iff split: option.splits)
  then have "find (\<lambda>x. q_id x = Some (next_id s)) (questions s @ [q]) = Some q"
    by (rule find_append_fresh) (simp add: q_def)
  with i s' show ?thesis
    by (auto simp: Question_get_def q_def)
qed

lemma handle_questions: "\<exists>ys. questions (handle s r) = questions s @ ys"
  by (cases r)
    (auto simp: create_question_def answer_question_def comment_on_answer_def
      generate_ai_answer_route_def Question_insert_def Answer_insert_def Comment_insert_def
      split: option.splits)

lemma handle_next_id: "next_id s \<le> next_id (handle s r)"
  by (cases r)
    (auto simp: create_question_def answer_question_def comment_on_answer_def
      generate_ai_answer_route_def Question_insert_def Answer_insert_def Comment_insert_def
      split: option.splits)

lemma answer_question_questions:
  "questions (snd (answer_question s i d u)) = questions s"
  by (auto simp: answer_question_def Answer_insert_def split: option.splits)

lemma comment_on_answer_questions:
  "questions (snd (comment_on_answer s i d u)) = questions s"
  by (auto simp: comment_on_answer_def Comment_insert_def split: option.splits)

text \<open>The AI route never returns a result and never changes the store.\<close>

lemma generate_ai_answer_route_fails:
  "isl (fst (generate_ai_answer_route g s i u)) \<and> snd (generate_ai_answer_route g s i u) = s"
  by (simp add: generate_ai_answer_route_def split: option.splits)

lemma generate_questions:
  "questions (snd (generate_ai_answer_route g s i u)) = questions s"
  by (auto simp: generate_ai_answer_route_def Answer_insert_def split: option.splits)

lemma wf_store_mono:
  "wf_store s \<Longrightarrow> questions s' = questions s \<Longrightarrow> next_id s \<le> next_id s' \<Longrightarrow> wf_store s'"
  by (fastforce simp: wf_store_def list_all_iff split: option.splits)

lemma handle_wf:
  assumes "wf_store s"
  shows "wf_store (handle s r)"
proof (cases r)
  case (CreateQuestion d u)
  with assms show ?thesis by (simp add: create_question_wf)
next
  case (AnswerQuestion i d u)
  with assms show ?thesis
    using handle_next_id [of s r]
    by (auto intro: wf_store_mono simp: answer_question_questions)
next
  case (CommentOnAnswer i d u)
  with assms show ?thesis
    using handle_next_id [of s r]
    by (auto intro: wf_store_mono simp: comment_on_answer_questions)
next
  case (GenerateAiAnswer g i u)
  with assms show ?thesis
    using handle_next_id [of s r]
    by (auto intro: wf_store_mono simp: generate_questions)
qed

lemma handle_get:
  "Question_get s i = Some q \<Longrightarrow> Question_get (handle s r) i = Some q"
  using handle_questions [of s r] by (auto simp: Question_get_def find_append_left)

lemma run_wf: "wf_store s \<Longrightarrow> wf_store (run s rs)"
  unfolding run_def by (induction rs arbitrary: s) (simp_all add: handle_wf)

lemma run_get: "Question_get s i = Some q \<Longrightarrow> Question_get (run s rs) i = Some q"
  unfolding run_def by (induction rs arbitrary: s) (simp_all add: handle_get)

lemma handle_answers_ok: "answers_ok s \<Longrightarrow> answers_ok (handle s r)"
  by (cases r)
    (auto simp: answers_ok_def author_matches_origin_def create_question_def
      answer_question_def comment_on_answer_def generate_ai_answer_route_def
      Question_insert_def Answer_insert_def Comment_insert_def
      split: option.splits)

subsection \<open>Pages\<close>

lemma concat_pages:
  "concat (map (\<lambda>i. take n (drop (i * n) xs)) [0..<k]) = take (k * n) xs"
proof (induction k)
  case 0
  then show ?case by simp
next
  case (Suc k)
  have "take (Suc k * n) xs = take (k * n) xs @ take n (drop (k * n) xs)"
    using take_add [of "k * n" n xs] by (simp add: add.commute)
  with Suc show ?case by simp
qed

lemma pages_upto: "[1..int k] = map (\<lambda>i. int i + 1) [0..<k]"
proof (induction k)
  case 0
  then show ?case by simp
next
  case (Suc k)
  have "[1..int (Suc k)] = [1..int k] @ [int k + 1]"
    using upto_rec2 [of 1 "int (Suc k)"] by (simp add: add.commute)
  with Suc show ?case by simp
qed

lemma get_questions_page:
  assumes "0 < page_size"
  shows "get_questions srt s (int i + 1) page_size tags sort_by u
     = Inr (take (nat page_size) (drop (i * nat page_size)
         (srt (- 1) (filter (matches (build_query tags u)) (questions s)))))"
proof -
  have "nat (int i * page_size) = i * nat page_size"
    using assms by (simp add: nat_mult_distrib)
  moreover have "\<not> int i * page_size < 0"
    using assms by (simp add: mult_less_0_iff)
  ultimately show ?thesis
    using assms by (simp add: get_questions_def find_to_list_def limit_docs_def)
qed

section \<open>Tenant isolation of reads\<close>

text \<open>
  C1. For every store state and all tenants T1 and T2 that differ, a question created under
  T1 is never in the result of the list operation called with T2's tenant id, and the detail
  operation called with T2's tenant id never returns it: on the question's identity it fails
  with AccessDenied. The store is any well-formed store \<open>s0\<close> in which \<open>u1\<close> creates the
  question, followed by any sequence \<open>rs\<close> of write requests; the store's ordering \<open>srt\<close>
  returns only documents it was given.
\<close>

theorem tenant_isolation_reads:
  assumes "\<forall>d xs. set (srt d xs) \<subseteq> set xs"
    and "wf_store s0"
    and "create_question s0 question_data u1 = (Inr (m, i), s1)"
    and "u_company_id u2 \<noteq> u_company_id u1"
  shows "\<exists>q. Question_get (run s1 rs) i = Some q
           \<and> q_company_id q = u_company_id u1
           \<and> (\<forall>page page_size tags sort_by res.
                 get_questions srt (run s1 rs) page page_size tags sort_by u2 = Inr res
                 \<longrightarrow> q \<notin> set res)
           \<and> (\<forall>question_id r. get_question_by_id (run s1 rs) question_id u2 = Inr r
                 \<longrightarrow> fst r \<noteq> q)
           \<and> get_question_by_id (run s1 rs) i u2 = Inl AccessDenied"
proof -
  from create_question_tenant [OF assms(2,3)] obtain q
    where q: "Question_get s1 i = Some q" "q_company_id q = u_company_id u1" by blast
  have wf: "wf_store (run s1 rs)"
    using create_question_wf [OF assms(2), of question_data u1] assms(3) by (simp add: run_wf)
  have g: "Question_get (run s1 rs) i = Some q" using q(1) by (rule run_get)
  then have mem: "q \<in> set (questions (run s1 rs))" by (simp add: Question_get_mem)
  have ne: "q_company_id q \<noteq> u_company_id u2" using q(2) assms(4) by simp
  have denied: "get_question_by_id (run s1 rs) i u2 = Inl AccessDenied"
    using g ne by (simp add: get_question_by_id_def)
  from stored_question_isolated [OF assms(1) wf mem ne] g q(2) denied
  show ?thesis by blast
qed

theorem tenant_isolation_reads_witness:
  "get_question_by_id
     (run (snd (create_question empty_store
                  \<lparr>qd_title = Some ''t'', qd_description = Some ''d'', qd_tags = Some [''x'']\<rparr>
                  alice))
        [AnswerQuestion 0 \<lparr>ad_answer = Some ''a''\<rparr> alice])
     0 bob = Inl AccessDenied"
proof -
  have srt: "\<forall>d xs. set (sort_by_upvotes d xs) \<subseteq> set xs"
    by (simp add: sort_by_upvotes_set)
  have wf: "wf_store empty_store"
    by (simp add: wf_store_def empty_store_def)
  have cr: "create_question empty_store
      \<lparr>qd_title = Some ''t'', qd_description = Some ''d'', qd_tags = Some [''x'']\<rparr> alice
    = (Inr (''Question created successfully'', 0),
       snd (create_question empty_store
         \<lparr>qd_title = Some ''t'', qd_description = Some ''d'', qd_tags = Some [''x'']\<rparr> alice))"
    by (simp add: create_question_def Question_insert_def empty_store_def)
  have ne: "u_company_id bob \<noteq> u_company_id alice"
    by (simp add: alice_def bob_def)
  from tenant_isolation_reads [OF srt wf cr ne] show ?thesis by blast
qed

section \<open>Tenant ownership on the write paths\<close>

text \<open>
  C2. The claim is that every write path that references a question checks the tenant:
  answering a question of another tenant fails with AccessDenied and inserts nothing. The
  handler \<^verbatim>\<open>answer_question\<close> only checks that the question exists (lines 69 to 71),
  unlike \<^verbatim>\<open>get_question_by_id\<close> (lines 57 and 58): here \<open>bob\<close> of company 2 answers
  the question of company 1, the call succeeds and the answer is inserted.
\<close>

theorem write_paths_cross_tenant_insert:
  "Question_get store1 0 = Some q0 \<and> q_company_id q0 \<noteq> u_company_id bob
   \<and> answer_question store1 0 \<lparr>ad_answer = Some ''hi''\<rparr> bob
       = (Inr ''Answer added successfully'',
          store1\<lparr>answers := [\<lparr>a_id = Some 1, a_question_id = 0, a_answer = ''hi'',
                              a_user_id = Some ''bob'', a_upvotes = 0, a_is_ai = False\<rparr>],
                 next_id := 2\<rparr>)"
  by (simp add: answer_question_def Question_get_def Answer_insert_def store1_def q0_def
      bob_def)

section \<open>Sort key\<close>

text \<open>
  C3. For every store state and every pair of sort keys given to the list operation (for
  instance "upvotes" and "created_at"), the result is the same: the sort selection collapses
  to one fixed direction whatever key is requested.
\<close>

theorem get_questions_sort_key_irrelevant:
  "get_questions srt s page page_size tags k1 current_user
     = get_questions srt s page page_size tags k2 current_user"
  by (simp add: get_questions_def)

theorem get_questions_sort_key_irrelevant_witness:
  "get_questions sort_by_upvotes store2 1 10 None ''upvotes'' alice = Inr [q1, q3, q0]
   \<and> get_questions sort_by_upvotes store2 1 10 None ''created_at'' alice = Inr [q1, q3, q0]"
proof -
  have "get_questions sort_by_upvotes store2 1 10 None ''upvotes'' alice = Inr [q1, q3, q0]"
    by (simp add: get_questions_def find_to_list_def limit_docs_def sort_by_upvotes_def
        matches_def build_query_def store2_def q0_def q1_def q2_def q3_def alice_def)
  with get_questions_sort_key_irrelevant
    [where srt = sort_by_upvotes and s = store2 and page = 1 and page_size = 10
      and tags = None and ?k1.0 = "''created_at''" and ?k2.0 = "''upvotes''"
      and current_user = alice]
  show ?thesis by simp
qed

section \<open>The AI answer route\<close>

text \<open>
  C4. The claim is that for a tenant whose AI answering is off the route always fails with
  Forbidden and leaves the store unchanged, and that a failed generation leaves no partial
  answer. The source means the flag to be the gate (the comment of line 105 and the check of
  lines 107 and 108), but line 106 reads \<^verbatim>\<open>.company\<close> off the query before it is
  awaited, so for a question that exists the route raises there and the gate is not
  reached: \<open>alice\<close>, whose company has the flag off, asks for an AI answer to question 0
  and the failure is AttributeError, not Forbidden. The store is unchanged.
\<close>

theorem generate_flag_off_not_forbidden:
  "User_company store1 (u_sub alice) = Some \<lparr>co_id = 1, ai_answer_enabled = False\<rparr>
   \<and> Question_get store1 0 = Some q0
   \<and> generate_ai_answer_route (\<lambda>t d. Some (t @ d)) store1 0 alice
       = (Inl AttributeError, store1)
   \<and> fst (generate_ai_answer_route (\<lambda>t d. Some (t @ d)) store1 0 alice) \<noteq> Inl Forbidden"
  by (simp add: generate_ai_answer_route_def Question_get_def User_company_def store1_def
      q0_def alice_def)

section \<open>Failures of the detail read\<close>

text \<open>
  C5, as stated: the response for a question of another tenant cannot be told from the
  response for an identity that does not exist. The handler raises two different
  exceptions, whose status and detail text both differ: \<open>bob\<close> of company 2 asks for the
  question of company 1 and for the identity 7, which no question has.
\<close>

theorem get_question_wrong_tenant_counterexample:
  "Question_get store1 0 = Some q0 \<and> q_company_id q0 \<noteq> u_company_id bob
   \<and> Question_get store1 7 = None
   \<and> get_question_by_id store1 0 bob = Inl (HTTPException 403 ''Access denied'')
   \<and> get_question_by_id store1 7 bob = Inl (HTTPException 404 ''Question not found'')
   \<and> get_question_by_id store1 0 bob \<noteq> get_question_by_id store1 7 bob"
  by (simp add: get_question_by_id_def Question_get_def store1_def q0_def bob_def)

text \<open>
  C5, amended. The detail read of an identity that does not exist fails with status 404 and
  detail "Question not found"; the detail read of a question of another tenant fails with
  status 403 and detail "Access denied", the same response whatever the question holds, so
  it shows that the question exists and nothing of its content.
\<close>

theorem get_question_failure_responses:
  "(Question_get s question_id = None
      \<longrightarrow> get_question_by_id s question_id current_user
            = Inl (HTTPException 404 ''Question not found''))
   \<and> (Question_get s question_id = Some question
        \<and> q_company_id question \<noteq> u_company_id current_user
      \<longrightarrow> get_question_by_id s question_id current_user
            = Inl (HTTPException 403 ''Access denied''))"
  by (simp add: get_question_by_id_def)

theorem get_question_failure_responses_witness:
  "get_question_by_id store1 7 bob = Inl NotFound
   \<and> get_question_by_id store1 0 bob = Inl AccessDenied"
proof -
  have a: "Question_get store1 7 = None"
    by (simp add: Question_get_def store1_def q0_def)
  have b: "Question_get store1 0 = Some q0 \<and> q_company_id q0 \<noteq> u_company_id bob"
    by (simp add: Question_get_def store1_def q0_def bob_def)
  from get_question_failure_responses
      [where s = store1 and question_id = 7 and current_user = bob and question = q0] a
    get_question_failure_responses
      [where s = store1 and question_id = 0 and current_user = bob and question = q0] b
  show ?thesis by simp
qed

section \<open>Author and origin of answers\<close>

text \<open>
  C6. After any sequence of requests (answers by callers, AI answers, and the other writes),
  every stored answer has an author exactly when it is not AI-generated: from a store that
  satisfies this, and so from the empty store.
\<close>

theorem answer_author_origin_invariant:
  "(answers_ok s \<longrightarrow> answers_ok (run s rs)) \<and> answers_ok (run empty_store rs)"
proof -
  have step: "answers_ok s \<Longrightarrow> answers_ok (run s rs)" for s
    unfolding run_def by (induction rs arbitrary: s) (simp_all add: handle_answers_ok)
  have "answers_ok empty_store" by (simp add: answers_ok_def empty_store_def)
  with step show ?thesis by blast
qed

theorem answer_author_origin_invariant_witness:
  "answers_ok store3
   \<and> answers_ok (run store3 [AnswerQuestion 0 \<lparr>ad_answer = Some ''a''\<rparr> alice,
                              GenerateAiAnswer (\<lambda>t d. Some (t @ d)) 0 bob])
   \<and> length (answers (run store3 [AnswerQuestion 0 \<lparr>ad_answer = Some ''a''\<rparr> alice,
                              GenerateAiAnswer (\<lambda>t d. Some (t @ d)) 0 bob])) = 3"
proof -
  have ok: "answers_ok store3"
    by (simp add: answers_ok_def author_matches_origin_def store3_def)
  have len: "length (answers (run store3 [AnswerQuestion 0 \<lparr>ad_answer = Some ''a''\<rparr> alice,
                              GenerateAiAnswer (\<lambda>t d. Some (t @ d)) 0 bob])) = 3"
    by (simp add: run_def answer_question_def generate_ai_answer_route_def Question_get_def
        Answer_insert_def store3_def q0_def bob_def alice_def)
  from answer_author_origin_invariant
    [of store3 "[AnswerQuestion 0 \<lparr>ad_answer = Some ''a''\<rparr> alice,
                 GenerateAiAnswer (\<lambda>t d. Some (t @ d)) 0 bob]"] ok len
  show ?thesis by blast
qed

section \<open>Creating a question\<close>

text \<open>
  C7, as stated: creating a question fails with ValidationError, and inserts nothing, when
  the title or the description is empty. The handler checks neither: with both empty it
  inserts the question and reports success.
\<close>

theorem create_question_empty_title_counterexample:
  "create_question store1
      \<lparr>qd_title = Some '''', qd_description = Some '''', qd_tags = None\<rparr> alice
    = (Inr (''Question created successfully'', 1),
       store1\<lparr>questions := [q0, \<lparr>q_id = Some 1, q_title = '''', q_description = '''',
                                  q_tags = [], q_company_id = 1, q_user_id = ''alice'',
                                  q_upvotes = 0\<rparr>],
              next_id := 2\<rparr>)
   \<and> \<not> fails_with_validation_error (fst (create_question store1
      \<lparr>qd_title = Some '''', qd_description = Some '''', qd_tags = None\<rparr> alice))"
  by (simp add: create_question_def Question_insert_def store1_def alice_def)

text \<open>
  C7, amended. Creating a question does not look at the title and the description: when
  both keys are present, whatever their texts, empty ones too, it inserts one question with
  these texts, the given tags or none, the caller's company and identity and no upvotes, and
  returns the new identity; and it never fails with ValidationError.
\<close>

theorem create_question_no_emptiness_check:
  "(qd_title question_data = Some t \<and> qd_description question_data = Some d
      \<longrightarrow> create_question s question_data current_user
            = (Inr (''Question created successfully'', next_id s),
               s\<lparr>questions := questions s @
                    [\<lparr>q_id = Some (next_id s), q_title = t, q_description = d,
                      q_tags = (case qd_tags question_data of None \<Rightarrow> [] | Some ts \<Rightarrow> ts),
                      q_company_id = u_company_id current_user,
                      q_user_id = u_sub current_user, q_upvotes = 0\<rparr>],
                 next_id := Suc (next_id s)\<rparr>))
   \<and> \<not> fails_with_validation_error (fst (create_question s question_data current_user))"
  by (auto simp: create_question_def Question_insert_def split: option.splits)

theorem create_question_no_emptiness_check_witness:
  "fst (create_question store1
      \<lparr>qd_title = Some '''', qd_description = Some ''d'', qd_tags = Some [''x'']\<rparr> alice)
    = Inr (''Question created successfully'', 1)
   \<and> length (questions (snd (create_question store1
      \<lparr>qd_title = Some '''', qd_description = Some ''d'', qd_tags = Some [''x'']\<rparr> alice))) = 2"
  using create_question_no_emptiness_check
    [where question_data
        = "\<lparr>qd_title = Some '''', qd_description = Some ''d'', qd_tags = Some [''x'']\<rparr>"
      and t = "''''" and d = "''d''" and s = store1 and current_user = alice]
  by (simp add: store1_def)

section \<open>Pagination\<close>

text \<open>
  C8. Pages are numbered from 1 and page \<open>p\<close> skips \<open>(p - 1) * page_size\<close> documents: for
  every store, every page from 1 on and every positive page size, a page is returned and has
  at most \<open>page_size\<close> items; the pages 1 to \<open>k\<close> of one store, one after the other, are the
  first \<open>k * page_size\<close> matching questions in the store's order, so nothing is skipped or
  repeated between pages; once \<open>k\<close> pages cover the matching questions, they hold each of
  them as often as the store does, and without duplicates when the store has none. The
  store's ordering rearranges the documents it is given.
\<close>

theorem pagination_pages:
  assumes "0 < page_size"
    and "\<forall>xs. mset (srt (- 1) xs) = mset xs"
  shows "(\<forall>page \<ge> 1. \<exists>rs. get_questions srt s page page_size tags sort_by u = Inr rs
            \<and> length rs \<le> nat page_size
            \<and> rs = take (nat page_size) (drop (nat ((page - 1) * page_size))
                     (srt (- 1) (filter (matches (build_query tags u)) (questions s)))))
       \<and> concat (map (\<lambda>page. items (get_questions srt s page page_size tags sort_by u))
                  [1..int k])
           = take (k * nat page_size)
               (srt (- 1) (filter (matches (build_query tags u)) (questions s)))
       \<and> (length (filter (matches (build_query tags u)) (questions s)) \<le> k * nat page_size
            \<longrightarrow> mset (concat (map (\<lambda>page. items
                                (get_questions srt s page page_size tags sort_by u))
                              [1..int k]))
                  = mset (filter (matches (build_query tags u)) (questions s)))
       \<and> (distinct (questions s)
            \<longrightarrow> distinct (concat (map (\<lambda>page. items
                                (get_questions srt s page page_size tags sort_by u))
                              [1..int k])))"
proof -
  let ?m = "filter (matches (build_query tags u)) (questions s)"
  let ?o = "srt (- 1) ?m"
  let ?pages = "concat (map (\<lambda>page. items
      (get_questions srt s page page_size tags sort_by u)) [1..int k])"
  have perm: "mset ?o = mset ?m" using assms(2) by blast
  have pages: "?pages = take (k * nat page_size) ?o"
    using concat_pages [of "nat page_size" ?o k]
    by (simp add: pages_upto comp_def get_questions_page [OF assms(1)])
  have one: "\<forall>page \<ge> 1. \<exists>rs. get_questions srt s page page_size tags sort_by u = Inr rs
            \<and> length rs \<le> nat page_size
            \<and> rs = take (nat page_size) (drop (nat ((page - 1) * page_size)) ?o)"
  proof (intro allI impI)
    fix page :: int
    assume "1 \<le> page"
    then have "\<not> (page - 1) * page_size < 0"
      using assms(1) by (simp add: mult_less_0_iff)
    then show "\<exists>rs. get_questions srt s page page_size tags sort_by u = Inr rs
            \<and> length rs \<le> nat page_size
            \<and> rs = take (nat page_size) (drop (nat ((page - 1) * page_size)) ?o)"
      using assms(1) by (simp add: get_questions_def find_to_list_def limit_docs_def)
  qed
  have full: "length ?m \<le> k * nat page_size \<longrightarrow> mset ?pages = mset ?m"
  proof
    assume "length ?m \<le> k * nat page_size"
    moreover have "length ?o = length ?m" using perm by (rule mset_eq_length)
    ultimately have "take (k * nat page_size) ?o = ?o" by simp
    with pages perm show "mset ?pages = mset ?m" by simp
  qed
  have dist: "distinct (questions s) \<longrightarrow> distinct ?pages"
  proof
    assume "distinct (questions s)"
    then have "distinct ?m" by simp
    then have "distinct ?o" using perm mset_eq_imp_distinct_iff by blast
    with pages show "distinct ?pages" by simp
  qed
  from one pages full dist show ?thesis by blast
qed

theorem pagination_pages_witness:
  "get_questions sort_by_upvotes store2 1 2 None ''upvotes'' alice = Inr [q1, q3]
   \<and> get_questions sort_by_upvotes store2 2 2 None ''upvotes'' alice = Inr [q0]
   \<and> concat (map (\<lambda>page. items
                (get_questions sort_by_upvotes store2 page 2 None ''upvotes'' alice))
        [1..2]) = [q1, q3, q0]"
proof -
  have pos: "(0::int) < 2" by simp
  have perm: "\<forall>xs. mset (sort_by_upvotes (- 1) xs) = mset xs"
    by (simp add: sort_by_upvotes_mset)
  have ord: "sort_by_upvotes (- 1)
          (filter (matches (build_query None alice)) (questions store2)) = [q1, q3, q0]"
    by (simp add: sort_by_upvotes_def matches_def build_query_def store2_def
        q0_def q1_def q2_def q3_def alice_def)
  from pagination_pages [where page_size = 2 and srt = sort_by_upvotes and s = store2
      and tags = None and sort_by = "''upvotes''" and u = alice and k = 2, OF pos perm]
  show ?thesis by (simp add: ord)
qed

section \<open>Page and page size out of range\<close>

text \<open>
  C9, as stated: the list operation called with a page below 1 or a page size of 0 or less
  fails with ValidationError. The handler checks neither: page 0, page size 0 and page size
  -1 all reach the store, and none of the three outcomes is a ValidationError.
\<close>

theorem get_questions_bad_page_counterexample:
  "\<not> fails_with_validation_error
       (get_questions sort_by_upvotes store1 0 10 None ''upvotes'' alice)
   \<and> \<not> fails_with_validation_error
       (get_questions sort_by_upvotes store1 1 0 None ''upvotes'' alice)
   \<and> \<not> fails_with_validation_error
       (get_questions sort_by_upvotes store1 1 (- 1) None ''upvotes'' alice)"
  by (simp add: get_questions_def find_to_list_def)

text \<open>
  C9, amended. The list operation does not check the page and the page size: it never fails
  with ValidationError, and whatever their values it hands \<open>(page - 1) * page_size\<close> to the
  store as the number of documents to skip and \<open>page_size\<close> as the limit; the outcome is
  the store's.
\<close>

theorem get_questions_no_validation:
  "\<not> fails_with_validation_error
       (get_questions srt s page page_size tags sort_by current_user)
   \<and> get_questions srt s page page_size tags sort_by current_user
       = find_to_list srt s (build_query tags current_user) (- 1)
           ((page - 1) * page_size) page_size"
  by (simp add: get_questions_def find_to_list_def)

theorem get_questions_no_validation_witness:
  "get_questions sort_by_upvotes store1 0 10 None ''upvotes'' alice = Inl StoreError
   \<and> get_questions sort_by_upvotes store1 0 10 None ''upvotes'' alice
       = find_to_list sort_by_upvotes store1 (build_query None alice) (- 1) (- 10) 10"
  using get_questions_no_validation
    [where srt = sort_by_upvotes and s = store1 and page = 0 and page_size = 10
      and tags = None and sort_by = "''upvotes''" and current_user = alice]
  by (simp add: find_to_list_def)

section \<open>Missing keys in the payload\<close>

text \<open>
  C10. When the payload of a question lacks the key "title" or the key "description", the
  handler fails with Python's KeyError for that key before any insert: the store is
  unchanged and the failure is not a ValidationError.
\<close>

theorem create_question_missing_key:
  assumes "qd_title question_data = None \<or> qd_description question_data = None"
  shows "(fst (create_question s question_data current_user) = Inl (KeyError ''title'')
          \<or> fst (create_question s question_data current_user)
              = Inl (KeyError ''description''))
       \<and> snd (create_question s question_data current_user) = s
       \<and> \<not> fails_with_validation_error (fst (create_question s question_data current_user))"
  using assms by (auto simp: create_question_def split: option.splits)

theorem create_question_missing_key_witness:
  "create_question store1 \<lparr>qd_title = Some ''t'', qd_description = None, qd_tags = None\<rparr> alice
     = (Inl (KeyError ''description''), store1)"
proof -
  have "qd_title \<lparr>qd_title = Some ''t'', qd_description = None, qd_tags = None\<rparr> = None
      \<or> qd_description \<lparr>qd_title = Some ''t'', qd_description = None, qd_tags = None\<rparr> = None"
    by simp
  from create_question_missing_key [OF this, of store1 alice]
  show ?thesis by (simp add: create_question_def prod_eq_iff)
qed

end
